theory Spec2Isabelle
  imports Main
begin

section \<open>The dataset factory of z5 (include/z5/filesystem/factory.hxx)\<close>

text \<open>
  The header holds five inline functions: \<^verbatim>\<open>openDataset\<close>, \<^verbatim>\<open>createDataset\<close>,
  \<^verbatim>\<open>createFile\<close>, \<^verbatim>\<open>createGroup\<close> and \<^verbatim>\<open>relativePath\<close>. Everything they call
  (the handle classes, \<^verbatim>\<open>readMetadata\<close>, \<^verbatim>\<open>writeMetadata\<close>, the \<^verbatim>\<open>Dataset<T>\<close>
  template, \<^verbatim>\<open>relativeImpl\<close>) lives in other headers. The functions of the header are
  embedded over a record of collaborators that stands for those other headers; a later
  part gives one instance of the collaborators, written from the specification.
\<close>

subsection \<open>Element-type tags\<close>

text \<open>
  The enumerators of \<^verbatim>\<open>types::Datatype\<close> that the two switches name, in the order of
  the case labels.
\<close>

datatype Datatype =
    int8 | int16 | int32 | int64
  | uint8 | uint16 | uint32 | uint64
  | float32 | float64
  | complex64 | complex128
  | unicode1 | unicode2 | unicode3 | unicode4 | unicode5
  | unicode6 | unicode7 | unicode8 | unicode9 | unicode10

text \<open>
  Modelled from the spec: the declaration of the enumeration \<^verbatim>\<open>types::Datatype\<close> is
  not in the header. The specification gives it 22 variants, which are the 22 case
  labels. The field \<^verbatim>\<open>metadata.dtype\<close> is an object of a C++ enumeration type, and
  such an object can hold a value that is none of the case labels (a further
  enumerator, or an integer converted to the type): \<open>unlisted n\<close> stands for that.
\<close>

datatype dtype_value = enumerator Datatype | unlisted nat

text \<open>
  The template arguments of \<^verbatim>\<open>Dataset<T>\<close> in the switches: the fixed-width integer
  types, \<^verbatim>\<open>float\<close>, \<^verbatim>\<open>double\<close>, \<^verbatim>\<open>std::complex<float>\<close>, \<^verbatim>\<open>std::complex<double>\<close>
  and \<^verbatim>\<open>z5::types::UTF32Array<N>\<close>.
\<close>

datatype ElementType =
    int8_t | int16_t | int32_t | int64_t
  | uint8_t | uint16_t | uint32_t | uint64_t
  | float | double
  | complex_float | complex_double
  | UTF32Array nat

subsection \<open>Handles, descriptors and dataset objects\<close>

text \<open>
  Modelled from the spec: the handle classes (\<^verbatim>\<open>handle::Dataset\<close>, \<^verbatim>\<open>handle::Group\<close>,
  \<^verbatim>\<open>handle::File\<close>) are declared in another header. After the specification a handle
  is a light value that addresses a location by its path and owns no storage; the
  header calls \<^verbatim>\<open>path()\<close>, \<^verbatim>\<open>exists()\<close> and \<^verbatim>\<open>create()\<close> on it. A \<^verbatim>\<open>fs::path\<close> is the
  sequence of its elements.
\<close>

type_synonym fs_path = "string list"

record handle =
  path :: fs_path

text \<open>
  Modelled from the spec: \<^verbatim>\<open>DatasetMetadata\<close> is declared in another header. The
  header reads its field \<^verbatim>\<open>dtype\<close> only; the shape and the chunk shape stand for the
  payload that the specification has passed through to the dataset.
\<close>

record DatasetMetadata =
  dtype :: dtype_value
  shape :: "nat list"
  chunkShape :: "nat list"

text \<open>
  Modelled from the spec: \<^verbatim>\<open>Metadata\<close> is declared in another header. The header builds
  it from the flag alone, \<^verbatim>\<open>Metadata fmeta(isZarr)\<close>; it is the metadata of a file or
  group, tagged with the flavor.
\<close>

datatype Metadata = Metadata (flavorIsZarr: bool)

text \<open>
  Modelled from the spec: the class template \<^verbatim>\<open>Dataset<T>\<close> is declared in another
  header. The object made by \<^verbatim>\<open>new Dataset<T>(dataset, metadata)\<close> is given by the
  template argument and the two constructor arguments. A
  \<^verbatim>\<open>std::unique_ptr<z5::Dataset>\<close> is an option of it, \<open>None\<close> being the null pointer.
\<close>

datatype Dataset = Dataset (elementType: ElementType) (handleOf: handle) (metadataOf: DatasetMetadata)

text \<open>
  Modelled from the spec: the dtype that a dataset reports is the one of the descriptor
  it was built from.
\<close>

definition getDtype :: "Dataset \<Rightarrow> dtype_value" where
  "getDtype d = dtype (metadataOf d)"

subsection \<open>Errors, calls and the world\<close>

text \<open>
  \<open>runtime_error\<close> is the \<^verbatim>\<open>std::runtime_error\<close> that \<^verbatim>\<open>openDataset\<close> throws, with its
  message. \<open>MalformedMetadata\<close> and \<open>StorageFailure\<close> are the two conditions that the
  specification lets the collaborators raise.
\<close>

datatype error = runtime_error string | MalformedMetadata | StorageFailure

text \<open>
  Every call that a function of the header makes to a collaborator is written to a
  trace, in the order of the calls.
\<close>

datatype event =
    exists_called handle
  | readMetadata_called handle
  | create_called handle
  | writeMetadata_called handle DatasetMetadata
  | writeMetadata_container_called handle Metadata
  | new_Dataset_called ElementType handle DatasetMetadata

record 's world =
  trace :: "event list"
  store :: 's

text \<open>
  The functions that the header calls and does not define, over a storage state \<open>'s\<close>:
  they are parameters of the embedding. \<^verbatim>\<open>exists()\<close> answers from the storage. Any
  other call returns normally (\<open>Inr\<close>) or throws (\<open>Inl\<close>), and leaves a storage state
  in both cases. \<^verbatim>\<open>writeMetadata\<close> is overloaded in C++: one overload for a dataset
  handle with a \<^verbatim>\<open>DatasetMetadata\<close>, one for a file or group handle with a
  \<^verbatim>\<open>Metadata\<close>.
\<close>

record 's collaborators =
  c_exists :: "handle \<Rightarrow> 's \<Rightarrow> bool"
  c_create :: "handle \<Rightarrow> 's \<Rightarrow> (error + unit) \<times> 's"
  c_readMetadata :: "handle \<Rightarrow> 's \<Rightarrow> (error + DatasetMetadata) \<times> 's"
  c_writeMetadata :: "handle \<Rightarrow> DatasetMetadata \<Rightarrow> 's \<Rightarrow> (error + unit) \<times> 's"
  c_writeMetadata_container :: "handle \<Rightarrow> Metadata \<Rightarrow> 's \<Rightarrow> (error + unit) \<times> 's"

type_synonym ('s, 'a) action = "'s world \<Rightarrow> (error + 'a) \<times> 's world"

definition returnE :: "'a \<Rightarrow> ('s, 'a) action" where
  "returnE x w = (Inr x, w)"

definition throwE :: "error \<Rightarrow> ('s, 'a) action" where
  "throwE e w = (Inl e, w)"

text \<open>Sequencing: an exception of the first statement skips the rest.\<close>

definition bindE :: "('s, 'a) action \<Rightarrow> ('a \<Rightarrow> ('s, 'b) action) \<Rightarrow> ('s, 'b) action" where
  "bindE m f w = (case m w of (Inl e, w') \<Rightarrow> (Inl e, w') | (Inr x, w') \<Rightarrow> f x w')"

text \<open>A call: the event is appended to the trace, the collaborator runs on the store.\<close>

definition call :: "event \<Rightarrow> ('s \<Rightarrow> (error + 'a) \<times> 's) \<Rightarrow> ('s, 'a) action" where
  "call ev f w = (case f (store w) of (r, s') \<Rightarrow> (r, \<lparr>trace = trace w @ [ev], store = s'\<rparr>))"

definition handle_exists :: "'s collaborators \<Rightarrow> handle \<Rightarrow> ('s, bool) action" where
  "handle_exists C h = call (exists_called h) (\<lambda>s. (Inr (c_exists C h s), s))"

definition handle_create :: "'s collaborators \<Rightarrow> handle \<Rightarrow> ('s, unit) action" where
  "handle_create C h = call (create_called h) (c_create C h)"

definition readMetadata :: "'s collaborators \<Rightarrow> handle \<Rightarrow> ('s, DatasetMetadata) action" where
  "readMetadata C h = call (readMetadata_called h) (c_readMetadata C h)"

definition writeMetadata :: "'s collaborators \<Rightarrow> handle \<Rightarrow> DatasetMetadata \<Rightarrow> ('s, unit) action" where
  "writeMetadata C h m = call (writeMetadata_called h m) (c_writeMetadata C h m)"

definition writeMetadata_container :: "'s collaborators \<Rightarrow> handle \<Rightarrow> Metadata \<Rightarrow> ('s, unit) action" where
  "writeMetadata_container C h m =
     call (writeMetadata_container_called h m) (c_writeMetadata_container C h m)"

text \<open>
  \<^verbatim>\<open>ptr.reset(new Dataset<T>(dataset, metadata))\<close>: the constructor is called and the
  pointer owns the new object. Modelled from the spec: the constructor is not in the
  header; after the specification (4.1) it does no storage access, and it returns.
\<close>

definition new_Dataset :: "ElementType \<Rightarrow> handle \<Rightarrow> DatasetMetadata \<Rightarrow> ('s, Dataset option) action" where
  "new_Dataset T dataset metadata =
     call (new_Dataset_called T dataset metadata) (\<lambda>s. (Inr (Some (Dataset T dataset metadata)), s))"

subsection \<open>openDataset\<close>

text \<open>
  The switch of \<^verbatim>\<open>openDataset\<close> (lines 24 to 72): \<^verbatim>\<open>ptr\<close> starts as the null pointer,
  each case label resets it to a new \<^verbatim>\<open>Dataset<T>\<close>, there is no default label, and
  \<^verbatim>\<open>ptr\<close> is returned.
\<close>

definition openDataset_switch :: "handle \<Rightarrow> DatasetMetadata \<Rightarrow> ('s, Dataset option) action" where
  "openDataset_switch dataset metadata =
     (case dtype metadata of
        enumerator int8 \<Rightarrow> new_Dataset int8_t dataset metadata
      | enumerator int16 \<Rightarrow> new_Dataset int16_t dataset metadata
      | enumerator int32 \<Rightarrow> new_Dataset int32_t dataset metadata
      | enumerator int64 \<Rightarrow> new_Dataset int64_t dataset metadata
      | enumerator uint8 \<Rightarrow> new_Dataset uint8_t dataset metadata
      | enumerator uint16 \<Rightarrow> new_Dataset uint16_t dataset metadata
      | enumerator uint32 \<Rightarrow> new_Dataset uint32_t dataset metadata
      | enumerator uint64 \<Rightarrow> new_Dataset uint64_t dataset metadata
      | enumerator float32 \<Rightarrow> new_Dataset float dataset metadata
      | enumerator float64 \<Rightarrow> new_Dataset double dataset metadata
      | enumerator complex64 \<Rightarrow> new_Dataset complex_float dataset metadata
      | enumerator complex128 \<Rightarrow> new_Dataset complex_double dataset metadata
      | enumerator unicode1 \<Rightarrow> new_Dataset (UTF32Array 1) dataset metadata
      | enumerator unicode2 \<Rightarrow> new_Dataset (UTF32Array 2) dataset metadata
      | enumerator unicode3 \<Rightarrow> new_Dataset (UTF32Array 3) dataset metadata
      | enumerator unicode4 \<Rightarrow> new_Dataset (UTF32Array 4) dataset metadata
      | enumerator unicode5 \<Rightarrow> new_Dataset (UTF32Array 5) dataset metadata
      | enumerator unicode6 \<Rightarrow> new_Dataset (UTF32Array 6) dataset metadata
      | enumerator unicode7 \<Rightarrow> new_Dataset (UTF32Array 7) dataset metadata
      | enumerator unicode8 \<Rightarrow> new_Dataset (UTF32Array 8) dataset metadata
      | enumerator unicode9 \<Rightarrow> new_Dataset (UTF32Array 9) dataset metadata
      | enumerator unicode10 \<Rightarrow> new_Dataset (UTF32Array 10) dataset metadata
      | unlisted n \<Rightarrow> returnE None)"

definition openDataset :: "'s collaborators \<Rightarrow> handle \<Rightarrow> ('s, Dataset option) action" where
  "openDataset C dataset =
     bindE (handle_exists C dataset) (\<lambda>ex.
       if \<not> ex then throwE (runtime_error ''Opening dataset failed because it does not exists.'')
       else bindE (readMetadata C dataset) (\<lambda>metadata.
         openDataset_switch dataset metadata))"

subsection \<open>createDataset\<close>

text \<open>The switch of \<^verbatim>\<open>createDataset\<close> (lines 85 to 133), written from its own lines.\<close>

definition createDataset_switch :: "handle \<Rightarrow> DatasetMetadata \<Rightarrow> ('s, Dataset option) action" where
  "createDataset_switch dataset metadata =
     (case dtype metadata of
        enumerator int8 \<Rightarrow> new_Dataset int8_t dataset metadata
      | enumerator int16 \<Rightarrow> new_Dataset int16_t dataset metadata
      | enumerator int32 \<Rightarrow> new_Dataset int32_t dataset metadata
      | enumerator int64 \<Rightarrow> new_Dataset int64_t dataset metadata
      | enumerator uint8 \<Rightarrow> new_Dataset uint8_t dataset metadata
      | enumerator uint16 \<Rightarrow> new_Dataset uint16_t dataset metadata
      | enumerator uint32 \<Rightarrow> new_Dataset uint32_t dataset metadata
      | enumerator uint64 \<Rightarrow> new_Dataset uint64_t dataset metadata
      | enumerator float32 \<Rightarrow> new_Dataset float dataset metadata
      | enumerator float64 \<Rightarrow> new_Dataset double dataset metadata
      | enumerator complex64 \<Rightarrow> new_Dataset complex_float dataset metadata
      | enumerator complex128 \<Rightarrow> new_Dataset complex_double dataset metadata
      | enumerator unicode1 \<Rightarrow> new_Dataset (UTF32Array 1) dataset metadata
      | enumerator unicode2 \<Rightarrow> new_Dataset (UTF32Array 2) dataset metadata
      | enumerator unicode3 \<Rightarrow> new_Dataset (UTF32Array 3) dataset metadata
      | enumerator unicode4 \<Rightarrow> new_Dataset (UTF32Array 4) dataset metadata
      | enumerator unicode5 \<Rightarrow> new_Dataset (UTF32Array 5) dataset metadata
      | enumerator unicode6 \<Rightarrow> new_Dataset (UTF32Array 6) dataset metadata
      | enumerator unicode7 \<Rightarrow> new_Dataset (UTF32Array 7) dataset metadata
      | enumerator unicode8 \<Rightarrow> new_Dataset (UTF32Array 8) dataset metadata
      | enumerator unicode9 \<Rightarrow> new_Dataset (UTF32Array 9) dataset metadata
      | enumerator unicode10 \<Rightarrow> new_Dataset (UTF32Array 10) dataset metadata
      | unlisted n \<Rightarrow> returnE None)"

definition createDataset :: "'s collaborators \<Rightarrow> handle \<Rightarrow> DatasetMetadata \<Rightarrow> ('s, Dataset option) action" where
  "createDataset C dataset metadata =
     bindE (handle_create C dataset) (\<lambda>_.
     bindE (writeMetadata C dataset metadata) (\<lambda>_.
       createDataset_switch dataset metadata))"

subsection \<open>createFile and createGroup\<close>

definition createFile :: "'s collaborators \<Rightarrow> handle \<Rightarrow> bool \<Rightarrow> ('s, unit) action" where
  "createFile C file isZarr =
     bindE (handle_create C file) (\<lambda>_.
       let fmeta = Metadata isZarr in
       writeMetadata_container C file fmeta)"

definition createGroup :: "'s collaborators \<Rightarrow> handle \<Rightarrow> bool \<Rightarrow> ('s, unit) action" where
  "createGroup C grp isZarr =
     bindE (handle_create C grp) (\<lambda>_.
       let fmeta = Metadata isZarr in
       writeMetadata_container C grp fmeta)"

subsection \<open>relativePath\<close>

text \<open>
  Modelled from the spec: \<^verbatim>\<open>relativeImpl\<close> is defined in another header. The
  specification (4.5) makes it the second path expressed relative to the first in the
  ordinary hierarchical way, with the \<^verbatim>\<open>..\<close>-prefixed form for paths that part ways:
  the common leading elements are dropped, every element left of the first path
  becomes \<^verbatim>\<open>..\<close>, and the elements left of the second path follow.
\<close>

fun relativeImpl :: "fs_path \<Rightarrow> fs_path \<Rightarrow> fs_path" where
  "relativeImpl (x # xs) (y # ys) =
     (if x = y then relativeImpl xs ys else replicate (length (x # xs)) ''..'' @ (y # ys))"
| "relativeImpl xs ys = replicate (length xs) ''..'' @ ys"

text \<open>\<^verbatim>\<open>.string()\<close> of a relative path: its elements, separated by a slash.\<close>

fun path_string :: "fs_path \<Rightarrow> string" where
  "path_string [] = []"
| "path_string [e] = e"
| "path_string (e # es) = e @ CHR ''/'' # path_string es"

definition relativePath :: "handle \<Rightarrow> handle \<Rightarrow> string" where
  "relativePath g1 g2 = path_string (relativeImpl (path g1) (path g2))"

text \<open>
  Resolving a relative path, given as a string, against a base path. The string is cut
  at the slashes into its elements (empty elements are dropped); \<^verbatim>\<open>..\<close> steps to the
  parent, \<^verbatim>\<open>.\<close> stays, any other element steps down.
\<close>

fun split_slash :: "string \<Rightarrow> string list" where
  "split_slash [] = [[]]"
| "split_slash (c # cs) =
     (if c = CHR ''/'' then [] # split_slash cs
      else (case split_slash cs of [] \<Rightarrow> [[c]] | e # es \<Rightarrow> (c # e) # es))"

definition elements_of_string :: "string \<Rightarrow> fs_path" where
  "elements_of_string s = filter (\<lambda>e. e \<noteq> []) (split_slash s)"

fun resolve_elements :: "fs_path \<Rightarrow> fs_path \<Rightarrow> fs_path" where
  "resolve_elements base [] = base"
| "resolve_elements base (e # es) =
     (if e = ''..'' then resolve_elements (butlast base) es
      else if e = ''.'' then resolve_elements base es
      else resolve_elements (base @ [e]) es)"

definition resolve :: "fs_path \<Rightarrow> string \<Rightarrow> fs_path" where
  "resolve base rel = resolve_elements base (elements_of_string rel)"

text \<open>
  The name of an ordinary node: not empty, without a slash, and neither \<^verbatim>\<open>.\<close> nor
  \<^verbatim>\<open>..\<close>.
\<close>

definition node_name :: "string \<Rightarrow> bool" where
  "node_name e = (e \<noteq> [] \<and> CHR ''/'' \<notin> set e \<and> e \<noteq> ''.'' \<and> e \<noteq> ''..'')"

text \<open>
  \<open>nested_under b a\<close>: the path \<open>b\<close> is the path \<open>a\<close> followed by the names of further
  nodes (none, when the two are the same location).
\<close>

definition nested_under :: "fs_path \<Rightarrow> fs_path \<Rightarrow> bool" where
  "nested_under b a = (take (length a) b = a \<and> list_all node_name (drop (length a) b))"

section \<open>What the tags mean\<close>

text \<open>
  The element representations that the specification lists: signed and unsigned
  integers of 1, 2, 4 or 8 bytes, floating point numbers of 32 or 64 bits, complex
  numbers of two such floating point parts, and arrays of a fixed number of UTF-32
  code units.
\<close>

datatype representation =
    SignedInteger nat
  | UnsignedInteger nat
  | FloatingPoint nat
  | ComplexOf nat
  | FixedUnicode nat

text \<open>The representation that a tag stands for, after the specification.\<close>

fun tag_representation :: "Datatype \<Rightarrow> representation" where
  "tag_representation int8 = SignedInteger 1"
| "tag_representation int16 = SignedInteger 2"
| "tag_representation int32 = SignedInteger 4"
| "tag_representation int64 = SignedInteger 8"
| "tag_representation uint8 = UnsignedInteger 1"
| "tag_representation uint16 = UnsignedInteger 2"
| "tag_representation uint32 = UnsignedInteger 4"
| "tag_representation uint64 = UnsignedInteger 8"
| "tag_representation float32 = FloatingPoint 32"
| "tag_representation float64 = FloatingPoint 64"
| "tag_representation complex64 = ComplexOf 32"
| "tag_representation complex128 = ComplexOf 64"
| "tag_representation unicode1 = FixedUnicode 1"
| "tag_representation unicode2 = FixedUnicode 2"
| "tag_representation unicode3 = FixedUnicode 3"
| "tag_representation unicode4 = FixedUnicode 4"
| "tag_representation unicode5 = FixedUnicode 5"
| "tag_representation unicode6 = FixedUnicode 6"
| "tag_representation unicode7 = FixedUnicode 7"
| "tag_representation unicode8 = FixedUnicode 8"
| "tag_representation unicode9 = FixedUnicode 9"
| "tag_representation unicode10 = FixedUnicode 10"

text \<open>
  The representation of a C++ element type: \<^verbatim>\<open>intN_t\<close> and \<^verbatim>\<open>uintN_t\<close> have N bits,
  \<^verbatim>\<open>float\<close> and \<^verbatim>\<open>double\<close> are the 32 and 64 bit IEEE formats, \<^verbatim>\<open>std::complex<T>\<close> is
  two \<^verbatim>\<open>T\<close>, and \<^verbatim>\<open>UTF32Array<N>\<close> is an array of N UTF-32 code units.
\<close>

fun cpp_representation :: "ElementType \<Rightarrow> representation" where
  "cpp_representation int8_t = SignedInteger 1"
| "cpp_representation int16_t = SignedInteger 2"
| "cpp_representation int32_t = SignedInteger 4"
| "cpp_representation int64_t = SignedInteger 8"
| "cpp_representation uint8_t = UnsignedInteger 1"
| "cpp_representation uint16_t = UnsignedInteger 2"
| "cpp_representation uint32_t = UnsignedInteger 4"
| "cpp_representation uint64_t = UnsignedInteger 8"
| "cpp_representation float = FloatingPoint 32"
| "cpp_representation double = FloatingPoint 64"
| "cpp_representation complex_float = ComplexOf 32"
| "cpp_representation complex_double = ComplexOf 64"
| "cpp_representation (UTF32Array N) = FixedUnicode N"

text \<open>The element type of the dataset that a run has returned, if it has returned one.\<close>

definition constructed_type :: "(error + Dataset option) \<times> 's world \<Rightarrow> ElementType option" where
  "constructed_type r = (case fst r of Inr (Some d) \<Rightarrow> Some (elementType d) | _ \<Rightarrow> None)"

text \<open>A descriptor whose tag is the enumerator \<open>t\<close>.\<close>

definition with_dtype :: "DatasetMetadata \<Rightarrow> Datatype \<Rightarrow> DatasetMetadata" where
  "with_dtype metadata t = metadata\<lparr>dtype := enumerator t\<rparr>"

section \<open>The collaborators, after the specification\<close>

text \<open>
  Modelled from the spec: the handle classes (\<^verbatim>\<open>exists\<close>, \<^verbatim>\<open>create\<close>) and the
  functions \<^verbatim>\<open>readMetadata\<close> and \<^verbatim>\<open>writeMetadata\<close> are defined in other headers. The
  storage medium below follows sections 3, 6 and 7 of the specification: a location
  exists or not; a node that exists holds no metadata record yet, the record of a
  dataset (the \<^verbatim>\<open>dtype\<close> field as a string, the shape, the chunks), or the
  flavor-tagged record of a container; the medium rejects the creation of some
  locations.
\<close>

datatype persisted =
    DatasetRecord (dtype_field: string) (shape_field: "nat list") (chunks_field: "nat list")
  | ContainerRecord (flavor_field: bool)

datatype node = empty_node | node_with persisted

record medium =
  nodes :: "fs_path \<rightharpoonup> node"
  rejected :: "fs_path set"

text \<open>
  Modelled from the spec: the 22 tag strings of the persisted \<^verbatim>\<open>dtype\<close> field. The
  specification does not spell them; the names of the tags are taken.
\<close>

fun dtype_string :: "Datatype \<Rightarrow> string" where
  "dtype_string int8 = ''int8''"
| "dtype_string int16 = ''int16''"
| "dtype_string int32 = ''int32''"
| "dtype_string int64 = ''int64''"
| "dtype_string uint8 = ''uint8''"
| "dtype_string uint16 = ''uint16''"
| "dtype_string uint32 = ''uint32''"
| "dtype_string uint64 = ''uint64''"
| "dtype_string float32 = ''float32''"
| "dtype_string float64 = ''float64''"
| "dtype_string complex64 = ''complex64''"
| "dtype_string complex128 = ''complex128''"
| "dtype_string unicode1 = ''unicode1''"
| "dtype_string unicode2 = ''unicode2''"
| "dtype_string unicode3 = ''unicode3''"
| "dtype_string unicode4 = ''unicode4''"
| "dtype_string unicode5 = ''unicode5''"
| "dtype_string unicode6 = ''unicode6''"
| "dtype_string unicode7 = ''unicode7''"
| "dtype_string unicode8 = ''unicode8''"
| "dtype_string unicode9 = ''unicode9''"
| "dtype_string unicode10 = ''unicode10''"

definition all_tags :: "Datatype list" where
  "all_tags =
     [int8, int16, int32, int64, uint8, uint16, uint32, uint64, float32, float64,
      complex64, complex128, unicode1, unicode2, unicode3, unicode4, unicode5,
      unicode6, unicode7, unicode8, unicode9, unicode10]"

text \<open>Decoding the persisted field: the tag with that string, if there is one.\<close>

definition decode_dtype :: "string \<Rightarrow> Datatype option" where
  "decode_dtype s = find (\<lambda>t. dtype_string t = s) all_tags"

text \<open>Modelled from the spec: \<^verbatim>\<open>exists() -> bool\<close>, the location has a node.\<close>

definition spec_exists :: "handle \<Rightarrow> medium \<Rightarrow> bool" where
  "spec_exists h m = (nodes m (path h) \<noteq> None)"

text \<open>
  Modelled from the spec: \<^verbatim>\<open>create()\<close> is idempotent on success and fails with
  StorageFailure where the medium rejects the creation. A node that exists is left as
  it is; a new node holds no record.
\<close>

definition spec_create :: "handle \<Rightarrow> medium \<Rightarrow> (error + unit) \<times> medium" where
  "spec_create h m =
     (if path h \<in> rejected m then (Inl StorageFailure, m)
      else (case nodes m (path h) of
              Some n \<Rightarrow> (Inr (), m)
            | None \<Rightarrow> (Inr (), m\<lparr>nodes := (nodes m)(path h \<mapsto> empty_node)\<rparr>)))"

text \<open>
  Modelled from the spec: reading the descriptor of a location. A \<^verbatim>\<open>dtype\<close> field
  that decodes to no tag is MalformedMetadata, and so is a record without that field;
  a location without a node or without a record cannot be read (StorageFailure).
\<close>

definition spec_readMetadata :: "handle \<Rightarrow> medium \<Rightarrow> (error + DatasetMetadata) \<times> medium" where
  "spec_readMetadata h m =
     (case nodes m (path h) of
        None \<Rightarrow> (Inl StorageFailure, m)
      | Some empty_node \<Rightarrow> (Inl StorageFailure, m)
      | Some (node_with (ContainerRecord z)) \<Rightarrow> (Inl MalformedMetadata, m)
      | Some (node_with (DatasetRecord s sh ch)) \<Rightarrow>
          (case decode_dtype s of
             None \<Rightarrow> (Inl MalformedMetadata, m)
           | Some t \<Rightarrow> (Inr \<lparr>dtype = enumerator t, shape = sh, chunkShape = ch\<rparr>, m)))"

text \<open>
  Modelled from the spec: persisting a descriptor at a location. The node must exist
  (StorageFailure otherwise). The \<^verbatim>\<open>dtype\<close> field is written as the string of the tag.
  The specification gives a descriptor one of the 22 tags and says nothing of any
  other value; here such a descriptor is refused and nothing is written.
\<close>

definition spec_writeMetadata :: "handle \<Rightarrow> DatasetMetadata \<Rightarrow> medium \<Rightarrow> (error + unit) \<times> medium" where
  "spec_writeMetadata h md m =
     (case nodes m (path h) of
        None \<Rightarrow> (Inl StorageFailure, m)
      | Some n \<Rightarrow>
          (case dtype md of
             unlisted k \<Rightarrow> (Inl MalformedMetadata, m)
           | enumerator t \<Rightarrow>
               (Inr (), m\<lparr>nodes := (nodes m)(path h \<mapsto>
                  node_with (DatasetRecord (dtype_string t) (shape md) (chunkShape md)))\<rparr>)))"

text \<open>
  Modelled from the spec: the metadata of a container is a record tagged with the
  flavor flag.
\<close>

definition spec_writeMetadata_container :: "handle \<Rightarrow> Metadata \<Rightarrow> medium \<Rightarrow> (error + unit) \<times> medium" where
  "spec_writeMetadata_container h fm m =
     (case nodes m (path h) of
        None \<Rightarrow> (Inl StorageFailure, m)
      | Some n \<Rightarrow>
          (Inr (), m\<lparr>nodes := (nodes m)(path h \<mapsto> node_with (ContainerRecord (flavorIsZarr fm)))\<rparr>))"

definition spec_collaborators :: "medium collaborators" where
  "spec_collaborators =
     \<lparr>c_exists = spec_exists,
      c_create = spec_create,
      c_readMetadata = spec_readMetadata,
      c_writeMetadata = spec_writeMetadata,
      c_writeMetadata_container = spec_writeMetadata_container\<rparr>"

section \<open>Example inputs\<close>

definition example_location :: handle where
  "example_location = \<lparr>path = [''data'', ''raw'']\<rparr>"

definition example_descriptor :: DatasetMetadata where
  "example_descriptor = \<lparr>dtype = enumerator float32, shape = [100, 100], chunkShape = [10, 10]\<rparr>"

definition unlisted_descriptor :: DatasetMetadata where
  "unlisted_descriptor = \<lparr>dtype = unlisted 22, shape = [4], chunkShape = [2]\<rparr>"

definition empty_medium :: medium where
  "empty_medium = \<lparr>nodes = Map.empty, rejected = {}\<rparr>"

definition initial_world :: "medium world" where
  "initial_world = \<lparr>trace = [], store = empty_medium\<rparr>"

text \<open>
  Collaborators without a storage state: every location exists, every call returns
  normally, and the descriptor read back is \<open>md\<close>.
\<close>

definition accepting_collaborators :: "DatasetMetadata \<Rightarrow> unit collaborators" where
  "accepting_collaborators md =
     \<lparr>c_exists = (\<lambda>h s. True),
      c_create = (\<lambda>h s. (Inr (), s)),
      c_readMetadata = (\<lambda>h s. (Inr md, s)),
      c_writeMetadata = (\<lambda>h m s. (Inr (), s)),
      c_writeMetadata_container = (\<lambda>h m s. (Inr (), s))\<rparr>"

text \<open>The world after the example dataset was created on the empty medium.\<close>

definition created_world :: "medium world" where
  "created_world =
     \<lparr>trace = [create_called example_location,
               writeMetadata_called example_location example_descriptor,
               new_Dataset_called float example_location example_descriptor],
      store = \<lparr>nodes = [[''data'', ''raw''] \<mapsto> node_with (DatasetRecord ''float32'' [100, 100] [10, 10])],
               rejected = {}\<rparr>\<rparr>"

text \<open>A medium whose record at the example location has a \<^verbatim>\<open>dtype\<close> that is no tag.\<close>

definition malformed_world :: "medium world" where
  "malformed_world =
     \<lparr>trace = [],
      store = \<lparr>nodes = [[''data'', ''raw''] \<mapsto> node_with (DatasetRecord ''float16'' [8] [8])],
               rejected = {}\<rparr>\<rparr>"

text \<open>A medium that rejects the creation of the example location.\<close>

definition rejecting_world :: "medium world" where
  "rejecting_world = \<lparr>trace = [], store = \<lparr>nodes = Map.empty, rejected = {[''data'', ''raw'']}\<rparr>\<rparr>"

section \<open>The functions of the header, run step by step\<close>

lemma new_Dataset_result:
  "new_Dataset T dataset metadata w =
     (Inr (Some (Dataset T dataset metadata)),
      \<lparr>trace = trace w @ [new_Dataset_called T dataset metadata], store = store w\<rparr>)"
  by (simp add: new_Dataset_def call_def)

lemma openDataset_run:
  "openDataset C dataset w =
     (if \<not> c_exists C dataset (store w)
      then (Inl (runtime_error ''Opening dataset failed because it does not exists.''),
            \<lparr>trace = trace w @ [exists_called dataset], store = store w\<rparr>)
      else (case c_readMetadata C dataset (store w) of
              (Inl e, s1) \<Rightarrow>
                (Inl e, \<lparr>trace = trace w @ [exists_called dataset, readMetadata_called dataset], store = s1\<rparr>)
            | (Inr metadata, s1) \<Rightarrow>
                openDataset_switch dataset metadata
                  \<lparr>trace = trace w @ [exists_called dataset, readMetadata_called dataset], store = s1\<rparr>))"
  by (simp add: openDataset_def bindE_def handle_exists_def readMetadata_def call_def throwE_def
      split: prod.splits sum.splits)

lemma createDataset_run:
  "createDataset C dataset metadata w =
     (case c_create C dataset (store w) of
        (Inl e, s1) \<Rightarrow> (Inl e, \<lparr>trace = trace w @ [create_called dataset], store = s1\<rparr>)
      | (Inr u, s1) \<Rightarrow>
          (case c_writeMetadata C dataset metadata s1 of
             (Inl e, s2) \<Rightarrow>
               (Inl e, \<lparr>trace = trace w @ [create_called dataset, writeMetadata_called dataset metadata],
                         store = s2\<rparr>)
           | (Inr u, s2) \<Rightarrow>
               createDataset_switch dataset metadata
                 \<lparr>trace = trace w @ [create_called dataset, writeMetadata_called dataset metadata],
                  store = s2\<rparr>))"
  by (simp add: createDataset_def bindE_def handle_create_def writeMetadata_def call_def
      split: prod.splits sum.splits)

lemma createGroup_run:
  "createGroup C h isZarr w =
     (case c_create C h (store w) of
        (Inl e, s1) \<Rightarrow> (Inl e, \<lparr>trace = trace w @ [create_called h], store = s1\<rparr>)
      | (Inr u, s1) \<Rightarrow>
          (case c_writeMetadata_container C h (Metadata isZarr) s1 of
             (r, s2) \<Rightarrow>
               (r, \<lparr>trace = trace w @ [create_called h, writeMetadata_container_called h (Metadata isZarr)],
                     store = s2\<rparr>)))"
  by (simp add: createGroup_def bindE_def handle_create_def writeMetadata_container_def call_def
      Let_def split: prod.splits sum.splits)

lemma createFile_createGroup: "createFile C h isZarr w = createGroup C h isZarr w"
  by (simp add: createFile_def createGroup_def)

section \<open>The two switches\<close>

lemma switches_agree:
  "createDataset_switch dataset metadata = openDataset_switch dataset metadata"
  by (simp add: openDataset_switch_def createDataset_switch_def)

lemma openDataset_switch_unlisted:
  "dtype metadata = unlisted n \<Longrightarrow> openDataset_switch dataset metadata w = (Inr None, w)"
  by (simp add: openDataset_switch_def returnE_def)

lemma openDataset_switch_enumerator:
  "\<exists>T. openDataset_switch dataset (with_dtype metadata t) =
         new_Dataset T dataset (with_dtype metadata t) \<and>
       cpp_representation T = tag_representation t"
  by (cases t; simp add: openDataset_switch_def with_dtype_def; rule exI; rule conjI; (rule refl)?; simp)

lemma openDataset_switch_listed:
  assumes "dtype metadata = enumerator t"
  obtains T where "cpp_representation T = tag_representation t"
    and "\<And>w :: 's world. openDataset_switch dataset metadata w = new_Dataset T dataset metadata w"
proof -
  from assms have md: "with_dtype metadata t = metadata" by (simp add: with_dtype_def)
  obtain T where
    "(openDataset_switch dataset (with_dtype metadata t) :: ('s, Dataset option) action) =
       new_Dataset T dataset (with_dtype metadata t)"
    "cpp_representation T = tag_representation t"
    using openDataset_switch_enumerator by blast
  with md that show ?thesis by simp
qed

lemma inj_tag_representation: "inj tag_representation"
proof (rule injI)
  fix x y assume "tag_representation x = tag_representation y"
  then show "x = y" by (cases x; cases y; simp)
qed

lemma inj_cpp_representation: "inj cpp_representation"
proof (rule injI)
  fix x y assume "cpp_representation x = cpp_representation y"
  then show "x = y" by (cases x; cases y; simp)
qed

lemma constructed_type_listed:
  fixes w :: "'s world"
  obtains T where "cpp_representation T = tag_representation t"
    and "constructed_type (openDataset_switch dataset (with_dtype metadata t) w) = Some T"
    and "openDataset_switch dataset (with_dtype metadata t) w =
           new_Dataset T dataset (with_dtype metadata t) w"
proof -
  have "dtype (with_dtype metadata t) = enumerator t" by (simp add: with_dtype_def)
  then obtain T where T: "cpp_representation T = tag_representation t"
    "openDataset_switch dataset (with_dtype metadata t) w =
       new_Dataset T dataset (with_dtype metadata t) w"
    by (rule openDataset_switch_listed) blast
  then have "constructed_type (openDataset_switch dataset (with_dtype metadata t) w) = Some T"
    by (simp add: constructed_type_def new_Dataset_result)
  with T that show ?thesis by blast
qed

lemma constructed_type_eq_iff:
  "(constructed_type (openDataset_switch dataset (with_dtype metadata t) w) =
    constructed_type (openDataset_switch dataset (with_dtype metadata t') w)) = (t = t')"
proof -
  obtain T where T: "cpp_representation T = tag_representation t"
    "constructed_type (openDataset_switch dataset (with_dtype metadata t) w) = Some T"
    by (rule constructed_type_listed)
  obtain T' where T': "cpp_representation T' = tag_representation t'"
    "constructed_type (openDataset_switch dataset (with_dtype metadata t') w) = Some T'"
    by (rule constructed_type_listed)
  have "(T = T') = (t = t')"
    using T(1) T'(1) inj_tag_representation inj_cpp_representation
    by (metis injD)
  with T(2) T'(2) show ?thesis by simp
qed

lemma unicode_types:
  "map (\<lambda>t. constructed_type (openDataset_switch dataset (with_dtype metadata t) w))
      [unicode1, unicode2, unicode3, unicode4, unicode5,
       unicode6, unicode7, unicode8, unicode9, unicode10] =
    map (\<lambda>N. Some (UTF32Array N)) [1, 2, 3, 4, 5, 6, 7, 8, 9, 10]"
  by (simp add: constructed_type_def openDataset_switch_def with_dtype_def new_Dataset_result)

section \<open>openDataset\<close>

text \<open>
  C2. On a location whose \<^verbatim>\<open>exists()\<close> is false, \<^verbatim>\<open>openDataset\<close> throws its
  \<^verbatim>\<open>std::runtime_error\<close> (the not-found condition), whatever the collaborators are;
  the only call it has made is \<^verbatim>\<open>exists()\<close>: no metadata is read and no dataset is
  constructed, and the storage is as it was.
\<close>

theorem openDataset_missing_location:
  "\<not> c_exists C dataset (store w) \<Longrightarrow>
   openDataset C dataset w =
     (Inl (runtime_error ''Opening dataset failed because it does not exists.''),
      \<lparr>trace = trace w @ [exists_called dataset], store = store w\<rparr>)"
  by (simp add: openDataset_run)

theorem openDataset_missing_location_witness:
  "\<not> c_exists spec_collaborators example_location (store initial_world) \<and>
   openDataset spec_collaborators example_location initial_world =
     (Inl (runtime_error ''Opening dataset failed because it does not exists.''),
      \<lparr>trace = [exists_called example_location], store = empty_medium\<rparr>)"
proof -
  have h: "\<not> c_exists spec_collaborators example_location (store initial_world)"
    by (simp add: spec_collaborators_def spec_exists_def initial_world_def empty_medium_def)
  from openDataset_missing_location [OF h] h show ?thesis
    by (simp add: initial_world_def)
qed

text \<open>
  C9. When the tag of the descriptor is none of the 22 case labels, both functions
  return the null pointer and throw nothing: \<^verbatim>\<open>openDataset\<close> after the location was
  found and the descriptor read, \<^verbatim>\<open>createDataset\<close> after the node was created and the
  descriptor written. No dataset is constructed.
\<close>

theorem unlisted_tag_gives_null_pointer:
  "(c_exists C dataset (store w) \<and> c_readMetadata C dataset (store w) = (Inr metadata, s1) \<and>
    dtype metadata = unlisted n \<longrightarrow>
      openDataset C dataset w =
        (Inr None, \<lparr>trace = trace w @ [exists_called dataset, readMetadata_called dataset], store = s1\<rparr>)) \<and>
   (c_create C dataset (store w) = (Inr (), s2) \<and> c_writeMetadata C dataset descriptor s2 = (Inr (), s3) \<and>
    dtype descriptor = unlisted n \<longrightarrow>
      createDataset C dataset descriptor w =
        (Inr None,
         \<lparr>trace = trace w @ [create_called dataset, writeMetadata_called dataset descriptor], store = s3\<rparr>))"
  by (simp add: openDataset_run createDataset_run switches_agree openDataset_switch_unlisted)

theorem unlisted_tag_gives_null_pointer_witness:
  "openDataset (accepting_collaborators unlisted_descriptor) example_location \<lparr>trace = [], store = ()\<rparr> =
     (Inr None,
      \<lparr>trace = [exists_called example_location, readMetadata_called example_location], store = ()\<rparr>) \<and>
   createDataset (accepting_collaborators unlisted_descriptor) example_location unlisted_descriptor
       \<lparr>trace = [], store = ()\<rparr> =
     (Inr None,
      \<lparr>trace = [create_called example_location,
                writeMetadata_called example_location unlisted_descriptor], store = ()\<rparr>)"
  using unlisted_tag_gives_null_pointer
    [of "accepting_collaborators unlisted_descriptor" example_location "\<lparr>trace = [], store = ()\<rparr>"
        unlisted_descriptor "()" 22 "()" unlisted_descriptor "()"]
  by (simp add: accepting_collaborators_def unlisted_descriptor_def)

text \<open>
  C5. On the medium of the specification: when the record persisted at the location has
  a \<^verbatim>\<open>dtype\<close> field that decodes to no tag, \<^verbatim>\<open>openDataset\<close> fails with
  MalformedMetadata. The exception of \<^verbatim>\<open>readMetadata\<close> passes through \<^verbatim>\<open>openDataset\<close>,
  which has made the calls \<^verbatim>\<open>exists()\<close> and \<^verbatim>\<open>readMetadata\<close> and no other: no
  dataset of any element type is constructed.
\<close>

theorem openDataset_malformed_dtype:
  assumes "nodes (store w) (path dataset) = Some (node_with (DatasetRecord s sh ch))"
    and "decode_dtype s = None"
  shows "openDataset spec_collaborators dataset w =
           (Inl MalformedMetadata,
            \<lparr>trace = trace w @ [exists_called dataset, readMetadata_called dataset], store = store w\<rparr>)"
  using assms
  by (simp add: openDataset_run spec_collaborators_def spec_exists_def spec_readMetadata_def)

theorem openDataset_malformed_dtype_witness:
  "nodes (store malformed_world) (path example_location) =
     Some (node_with (DatasetRecord ''float16'' [8] [8])) \<and>
   decode_dtype ''float16'' = None \<and>
   openDataset spec_collaborators example_location malformed_world =
     (Inl MalformedMetadata,
      \<lparr>trace = [exists_called example_location, readMetadata_called example_location],
       store = store malformed_world\<rparr>)"
proof -
  have n: "nodes (store malformed_world) (path example_location) =
     Some (node_with (DatasetRecord ''float16'' [8] [8]))"
    by (simp add: malformed_world_def example_location_def)
  have d: "decode_dtype ''float16'' = None"
    by (simp add: decode_dtype_def all_tags_def)
  from openDataset_malformed_dtype [OF n d] n d show ?thesis
    by (simp add: malformed_world_def)
qed

text \<open>The strings that decode to no tag are the strings that are the string of no tag.\<close>

lemma set_all_tags: "set all_tags = UNIV"
proof -
  have "t \<in> set all_tags" for t by (cases t) (simp_all add: all_tags_def)
  then show ?thesis by auto
qed

lemma decode_dtype_None: "decode_dtype s = None \<longleftrightarrow> (\<forall>t. dtype_string t \<noteq> s)"
  by (simp add: decode_dtype_def find_None_iff set_all_tags)

lemma decode_dtype_string: "decode_dtype (dtype_string t) = Some t"
  by (cases t) (simp_all add: decode_dtype_def all_tags_def)

section \<open>createDataset\<close>

text \<open>
  Every run of \<^verbatim>\<open>createDataset\<close> is one of four: \<^verbatim>\<open>create()\<close> throws;
  \<^verbatim>\<open>writeMetadata\<close> throws; the tag is no case label and the null pointer is returned;
  the tag is a case label and the new dataset is returned.
\<close>

lemma createDataset_outcomes:
  assumes run: "createDataset C dataset metadata w = (r, w')"
  shows "(\<exists>e s1. c_create C dataset (store w) = (Inl e, s1) \<and> r = Inl e \<and>
            w' = \<lparr>trace = trace w @ [create_called dataset], store = s1\<rparr>) \<or>
         (\<exists>s1 e s2. c_create C dataset (store w) = (Inr (), s1) \<and>
            c_writeMetadata C dataset metadata s1 = (Inl e, s2) \<and> r = Inl e \<and>
            w' = \<lparr>trace = trace w @ [create_called dataset, writeMetadata_called dataset metadata],
                  store = s2\<rparr>) \<or>
         (\<exists>s1 s2 n. c_create C dataset (store w) = (Inr (), s1) \<and>
            c_writeMetadata C dataset metadata s1 = (Inr (), s2) \<and>
            dtype metadata = unlisted n \<and> r = Inr None \<and>
            w' = \<lparr>trace = trace w @ [create_called dataset, writeMetadata_called dataset metadata],
                  store = s2\<rparr>) \<or>
         (\<exists>s1 s2 t T. c_create C dataset (store w) = (Inr (), s1) \<and>
            c_writeMetadata C dataset metadata s1 = (Inr (), s2) \<and>
            dtype metadata = enumerator t \<and> cpp_representation T = tag_representation t \<and>
            r = Inr (Some (Dataset T dataset metadata)) \<and>
            w' = \<lparr>trace = trace w @ [create_called dataset, writeMetadata_called dataset metadata,
                                     new_Dataset_called T dataset metadata],
                  store = s2\<rparr>)"
proof -
  obtain rc s1 where c: "c_create C dataset (store w) = (rc, s1)"
    by (cases "c_create C dataset (store w)")
  show ?thesis
  proof (cases rc)
    case (Inl e)
    with c run show ?thesis by (auto simp: createDataset_run)
  next
    case (Inr u)
    obtain rw s2 where wr: "c_writeMetadata C dataset metadata s1 = (rw, s2)"
      by (cases "c_writeMetadata C dataset metadata s1")
    show ?thesis
    proof (cases rw)
      case (Inl e)
      with c Inr wr run show ?thesis by (auto simp: createDataset_run)
    next
      case ok: (Inr u')
      let ?v = "\<lparr>trace = trace w @ [create_called dataset, writeMetadata_called dataset metadata],
                 store = s2\<rparr>"
      from c Inr wr ok run have sw: "openDataset_switch dataset metadata ?v = (r, w')"
        by (simp add: createDataset_run switches_agree)
      show ?thesis
      proof (cases "dtype metadata")
        case (unlisted n)
        with sw c Inr wr ok show ?thesis by (auto simp: openDataset_switch_unlisted)
      next
        case (enumerator t)
        then obtain T where "cpp_representation T = tag_representation t"
          "openDataset_switch dataset metadata ?v = new_Dataset T dataset metadata ?v"
          by (rule openDataset_switch_listed) blast
        with sw c Inr wr ok enumerator show ?thesis
          by (auto simp: new_Dataset_result)
      qed
    qed
  qed
qed

lemma createDataset_example:
  "createDataset spec_collaborators example_location example_descriptor initial_world =
     (Inr (Some (Dataset float example_location example_descriptor)), created_world)"
  by (simp add: createDataset_run spec_collaborators_def spec_create_def spec_writeMetadata_def
      createDataset_switch_def new_Dataset_result example_location_def example_descriptor_def
      initial_world_def empty_medium_def created_world_def)

text \<open>
  C4. In every run of \<^verbatim>\<open>createDataset\<close>, whatever the collaborators are: when a dataset
  is returned, \<^verbatim>\<open>create()\<close> has returned normally, then \<^verbatim>\<open>writeMetadata\<close> has returned
  normally on the storage that \<^verbatim>\<open>create()\<close> left, and only then the dataset was
  constructed, on the storage that \<^verbatim>\<open>writeMetadata\<close> left; these three calls, in this
  order, are all the calls made. When no dataset is returned, none was constructed:
  the calls made are \<^verbatim>\<open>create()\<close> alone, or \<^verbatim>\<open>create()\<close> and then \<^verbatim>\<open>writeMetadata\<close>.
\<close>

theorem createDataset_order:
  assumes run: "createDataset C dataset metadata w = (r, w')"
  shows "(\<forall>d. r = Inr (Some d) \<longrightarrow>
            (\<exists>s1 T. c_create C dataset (store w) = (Inr (), s1) \<and>
                    c_writeMetadata C dataset metadata s1 = (Inr (), store w') \<and>
                    trace w' = trace w @ [create_called dataset,
                                          writeMetadata_called dataset metadata,
                                          new_Dataset_called T dataset metadata] \<and>
                    d = Dataset T dataset metadata)) \<and>
         ((\<forall>d. r \<noteq> Inr (Some d)) \<longrightarrow>
            trace w' = trace w @ [create_called dataset] \<or>
            trace w' = trace w @ [create_called dataset, writeMetadata_called dataset metadata])"
  using createDataset_outcomes [OF run] by auto

theorem createDataset_order_witness:
  "createDataset spec_collaborators example_location example_descriptor initial_world =
     (Inr (Some (Dataset float example_location example_descriptor)), created_world) \<and>
   (\<exists>s1 T. c_create spec_collaborators example_location (store initial_world) = (Inr (), s1) \<and>
       c_writeMetadata spec_collaborators example_location example_descriptor s1 =
         (Inr (), store created_world) \<and>
       trace created_world = trace initial_world @
         [create_called example_location,
          writeMetadata_called example_location example_descriptor,
          new_Dataset_called T example_location example_descriptor] \<and>
       Dataset float example_location example_descriptor = Dataset T example_location example_descriptor)"
  using createDataset_order [OF createDataset_example] createDataset_example
  by simp

text \<open>
  On the medium of the specification, a dataset that \<^verbatim>\<open>createDataset\<close> returns has its
  record in the storage.
\<close>

lemma spec_writeMetadata_Inr:
  "spec_writeMetadata h md m = (Inr u, m2) \<Longrightarrow> dtype md = enumerator t \<Longrightarrow>
   nodes m2 (path h) = Some (node_with (DatasetRecord (dtype_string t) (shape md) (chunkShape md)))"
  by (auto simp: spec_writeMetadata_def split: option.splits)

lemma spec_createDataset_metadata_present:
  assumes "createDataset spec_collaborators dataset metadata w = (Inr (Some d), w')"
  shows "\<exists>t. dtype metadata = enumerator t \<and>
           nodes (store w') (path dataset) =
             Some (node_with (DatasetRecord (dtype_string t) (shape metadata) (chunkShape metadata)))"
proof -
  from createDataset_outcomes [OF assms] obtain s1 where
    wr: "spec_writeMetadata dataset metadata s1 = (Inr (), store w')"
    by (auto simp: spec_collaborators_def)
  then obtain t where t: "dtype metadata = enumerator t"
    by (cases "dtype metadata") (auto simp: spec_writeMetadata_def split: option.splits)
  from spec_writeMetadata_Inr [OF wr t] t show ?thesis by blast
qed

text \<open>
  C6. \<^verbatim>\<open>createDataset\<close> makes no existence check: its result does not depend on what
  \<^verbatim>\<open>exists()\<close> would answer, its first call is \<^verbatim>\<open>create()\<close> on the given location and
  no call of \<^verbatim>\<open>exists()\<close> follows; and what \<^verbatim>\<open>create()\<close> decides stands: when it
  throws, \<^verbatim>\<open>createDataset\<close> throws the same and calls nothing else.
\<close>

theorem createDataset_no_existence_check:
  "createDataset (C\<lparr>c_exists := f\<rparr>) dataset metadata w = createDataset C dataset metadata w \<and>
   (\<exists>evs. trace (snd (createDataset C dataset metadata w)) = trace w @ create_called dataset # evs \<and>
      (\<forall>h. exists_called h \<notin> set evs)) \<and>
   (\<forall>e s1. c_create C dataset (store w) = (Inl e, s1) \<longrightarrow>
      createDataset C dataset metadata w =
        (Inl e, \<lparr>trace = trace w @ [create_called dataset], store = s1\<rparr>))"
proof (intro conjI)
  show "createDataset (C\<lparr>c_exists := f\<rparr>) dataset metadata w = createDataset C dataset metadata w"
    by (simp add: createDataset_def handle_create_def writeMetadata_def)
  obtain r w' where run: "createDataset C dataset metadata w = (r, w')"
    by (cases "createDataset C dataset metadata w")
  from createDataset_outcomes [OF run]
  have "trace w' = trace w @ create_called dataset # [] \<or>
        trace w' = trace w @ create_called dataset # [writeMetadata_called dataset metadata] \<or>
        (\<exists>T. trace w' = trace w @ create_called dataset #
           [writeMetadata_called dataset metadata, new_Dataset_called T dataset metadata])"
    by auto
  then show "\<exists>evs. trace (snd (createDataset C dataset metadata w)) = trace w @ create_called dataset # evs \<and>
      (\<forall>h. exists_called h \<notin> set evs)"
    unfolding run by auto
  show "\<forall>e s1. c_create C dataset (store w) = (Inl e, s1) \<longrightarrow>
      createDataset C dataset metadata w =
        (Inl e, \<lparr>trace = trace w @ [create_called dataset], store = s1\<rparr>)"
    by (simp add: createDataset_run)
qed

theorem createDataset_no_existence_check_witness:
  "createDataset (spec_collaborators\<lparr>c_exists := (\<lambda>h s. True)\<rparr>) example_location example_descriptor
       rejecting_world =
     createDataset spec_collaborators example_location example_descriptor rejecting_world \<and>
   (\<exists>evs. trace (snd (createDataset spec_collaborators example_location example_descriptor
                         rejecting_world)) =
            trace rejecting_world @ create_called example_location # evs \<and>
      (\<forall>h. exists_called h \<notin> set evs)) \<and>
   c_create spec_collaborators example_location (store rejecting_world) =
     (Inl StorageFailure, store rejecting_world) \<and>
   createDataset spec_collaborators example_location example_descriptor rejecting_world =
     (Inl StorageFailure, \<lparr>trace = [create_called example_location], store = store rejecting_world\<rparr>)"
proof -
  have c: "c_create spec_collaborators example_location (store rejecting_world) =
     (Inl StorageFailure, store rejecting_world)"
    by (simp add: spec_collaborators_def spec_create_def rejecting_world_def example_location_def)
  from createDataset_no_existence_check
    [where C = spec_collaborators and f = "\<lambda>h s. True" and dataset = example_location
       and metadata = example_descriptor and w = rejecting_world] c
  show ?thesis by (simp add: rejecting_world_def)
qed

section \<open>Creating and opening again\<close>

lemma spec_read_after_write:
  assumes "nodes m (path h) = Some (node_with (DatasetRecord (dtype_string t) (shape md) (chunkShape md)))"
    and "dtype md = enumerator t"
  shows "spec_exists h m" and "spec_readMetadata h m = (Inr md, m)"
  using assms by (simp_all add: spec_exists_def spec_readMetadata_def decode_dtype_string)

text \<open>
  C3. On the medium of the specification, for every location and every descriptor
  whose tag is one of the 22: when \<^verbatim>\<open>createDataset(location, descriptor)\<close> has returned,
  \<^verbatim>\<open>openDataset(location)\<close>, run on the world that \<^verbatim>\<open>createDataset\<close> left, returns a
  dataset whose dtype is the dtype of the descriptor. Its element type has the
  representation of that tag and is the element type of the dataset that
  \<^verbatim>\<open>createDataset\<close> returned, and its shape is the shape of the descriptor.
\<close>

theorem create_then_open_roundtrip:
  assumes tag: "dtype descriptor = enumerator t"
    and created: "createDataset spec_collaborators dataset descriptor w = (Inr p, w1)"
  shows "\<exists>d w2. openDataset spec_collaborators dataset w1 = (Inr (Some d), w2) \<and>
           getDtype d = dtype descriptor \<and>
           cpp_representation (elementType d) = tag_representation t \<and>
           shape (metadataOf d) = shape descriptor \<and>
           map_option elementType p = Some (elementType d)"
proof -
  from created obtain m1 m2 where
    c: "spec_create dataset (store w) = (Inr (), m1)" and
    wr: "spec_writeMetadata dataset descriptor m1 = (Inr (), m2)" and
    sw: "createDataset_switch dataset descriptor
           \<lparr>trace = trace w @ [create_called dataset, writeMetadata_called dataset descriptor],
            store = m2\<rparr> = (Inr p, w1)"
    by (auto simp: createDataset_run spec_collaborators_def split: prod.splits sum.splits)
  obtain T where T: "cpp_representation T = tag_representation t"
    "\<And>v :: medium world. openDataset_switch dataset descriptor v = new_Dataset T dataset descriptor v"
    by (rule openDataset_switch_listed [OF tag]) blast
  from T(2) have "createDataset_switch dataset descriptor
           \<lparr>trace = trace w @ [create_called dataset, writeMetadata_called dataset descriptor],
            store = m2\<rparr> =
         (Inr (Some (Dataset T dataset descriptor)),
          \<lparr>trace = trace w @ [create_called dataset, writeMetadata_called dataset descriptor,
                     new_Dataset_called T dataset descriptor], store = m2\<rparr>)"
    by (simp add: switches_agree new_Dataset_result)
  with sw have p: "p = Some (Dataset T dataset descriptor)" and m2: "store w1 = m2"
    by auto
  from spec_writeMetadata_Inr [OF wr tag] have
    rec: "nodes m2 (path dataset) =
      Some (node_with (DatasetRecord (dtype_string t) (shape descriptor) (chunkShape descriptor)))" .
  from spec_read_after_write [OF rec tag] m2 have
    "c_exists spec_collaborators dataset (store w1)"
    "c_readMetadata spec_collaborators dataset (store w1) = (Inr descriptor, store w1)"
    by (simp_all add: spec_collaborators_def)
  then have "openDataset spec_collaborators dataset w1 =
      (Inr (Some (Dataset T dataset descriptor)),
       \<lparr>trace = trace w1 @ [exists_called dataset, readMetadata_called dataset,
                  new_Dataset_called T dataset descriptor], store = store w1\<rparr>)"
    using T(2) by (simp add: openDataset_run new_Dataset_result)
  then show ?thesis using T(1) p
    by (simp add: getDtype_def)
qed

theorem create_then_open_roundtrip_witness:
  "dtype example_descriptor = enumerator float32 \<and>
   createDataset spec_collaborators example_location example_descriptor initial_world =
     (Inr (Some (Dataset float example_location example_descriptor)), created_world) \<and>
   (\<exists>d w2. openDataset spec_collaborators example_location created_world = (Inr (Some d), w2) \<and>
      getDtype d = enumerator float32 \<and>
      cpp_representation (elementType d) = FloatingPoint 32 \<and>
      shape (metadataOf d) = [100, 100] \<and>
      elementType d = float)"
proof -
  have tag: "dtype example_descriptor = enumerator float32"
    by (simp add: example_descriptor_def)
  from create_then_open_roundtrip [OF tag createDataset_example] tag createDataset_example
  show ?thesis by (auto simp: example_descriptor_def)
qed

section \<open>createFile and createGroup\<close>

text \<open>
  C8. For every location and every flag, and whatever the collaborators are,
  \<^verbatim>\<open>createFile\<close> and \<^verbatim>\<open>createGroup\<close> do the same: they call \<^verbatim>\<open>create()\<close> on the location;
  when it throws they throw the same and write nothing; when it returns they call
  \<^verbatim>\<open>writeMetadata\<close> with the metadata built from the flag alone, on the storage that
  \<^verbatim>\<open>create()\<close> left, and end as that call ends. These are all the calls: no descriptor
  with an element type is read or written and no dataset is constructed.
\<close>

theorem container_creation:
  "createFile C h isZarr w = createGroup C h isZarr w \<and>
   (\<exists>rc s1. c_create C h (store w) = (rc, s1) \<and>
      (case rc of
         Inl e \<Rightarrow>
           createGroup C h isZarr w = (Inl e, \<lparr>trace = trace w @ [create_called h], store = s1\<rparr>)
       | Inr u \<Rightarrow>
           (\<exists>r s2. c_writeMetadata_container C h (Metadata isZarr) s1 = (r, s2) \<and>
              createGroup C h isZarr w =
                (r, \<lparr>trace = trace w @ [create_called h,
                                         writeMetadata_container_called h (Metadata isZarr)],
                     store = s2\<rparr>))))"
proof -
  obtain rc s1 where c: "c_create C h (store w) = (rc, s1)"
    by (cases "c_create C h (store w)")
  obtain r s2 where wr: "c_writeMetadata_container C h (Metadata isZarr) s1 = (r, s2)"
    by (cases "c_writeMetadata_container C h (Metadata isZarr) s1")
  from c wr show ?thesis
    by (cases rc) (simp_all add: createFile_createGroup createGroup_run)
qed

text \<open>
  On the medium of the specification, after \<^verbatim>\<open>createGroup\<close> has returned the node holds
  the record of a container with the flag.
\<close>

lemma spec_createGroup_record:
  assumes "createGroup spec_collaborators h isZarr w = (Inr u, w')"
  shows "nodes (store w') (path h) = Some (node_with (ContainerRecord isZarr))"
  using assms
  by (auto simp: createGroup_run spec_collaborators_def spec_create_def
      spec_writeMetadata_container_def split: prod.splits sum.splits if_splits option.splits)

section \<open>relativePath\<close>

lemma relativePath_example_sibling:
  "relativePath \<lparr>path = [''a'', ''b'']\<rparr> \<lparr>path = [''a'', ''c'', ''d'']\<rparr> = ''../c/d''"
  by (simp add: relativePath_def)

lemma relativeImpl_prefix: "relativeImpl a (a @ rest) = rest"
  by (induction a) (cases rest; simp)+

lemma split_slash_plain: "CHR ''/'' \<notin> set e \<Longrightarrow> split_slash e = [e]"
  by (induction e) auto

lemma split_slash_element:
  "CHR ''/'' \<notin> set e \<Longrightarrow> split_slash (e @ CHR ''/'' # s) = e # split_slash s"
  by (induction e) auto

lemma elements_of_path_string:
  "list_all (\<lambda>e. e \<noteq> [] \<and> CHR ''/'' \<notin> set e) es \<Longrightarrow> elements_of_string (path_string es) = es"
proof (induction es rule: path_string.induct)
  case 1
  then show ?case by (simp add: elements_of_string_def)
next
  case (2 e)
  then show ?case by (simp add: elements_of_string_def split_slash_plain)
next
  case (3 e e' es)
  then show ?case by (simp add: elements_of_string_def split_slash_element)
qed

lemma resolve_elements_names:
  "list_all node_name es \<Longrightarrow> resolve_elements base es = base @ es"
  by (induction es arbitrary: base) (auto simp: node_name_def)

text \<open>
  C7. For all handles \<open>A\<close> and \<open>B\<close> with \<open>B\<close> nested under \<open>A\<close>, resolving the string
  that \<^verbatim>\<open>relativePath(A, B)\<close> returns against the path of \<open>A\<close> gives the path of \<open>B\<close>.
  \<open>relativePath\<close> is a function of the two handles alone: it takes no storage and makes
  no call, so nothing is asked of the storage and neither location has to exist.
\<close>

theorem relativePath_resolves:
  assumes "nested_under (path B) (path A)"
  shows "resolve (path A) (relativePath A B) = path B"
proof -
  let ?rest = "drop (length (path A)) (path B)"
  from assms have b: "path B = path A @ ?rest" and names: "list_all node_name ?rest"
    by (simp_all add: nested_under_def) (metis append_take_drop_id)
  from names have plain: "list_all (\<lambda>e. e \<noteq> [] \<and> CHR ''/'' \<notin> set e) ?rest"
    by (simp add: list_all_iff node_name_def)
  have "relativeImpl (path A) (path B) = ?rest"
    using relativeImpl_prefix [of "path A" ?rest] b by simp
  then have "resolve (path A) (relativePath A B) = resolve_elements (path A) ?rest"
    by (simp add: resolve_def relativePath_def elements_of_path_string [OF plain])
  also have "\<dots> = path A @ ?rest" by (rule resolve_elements_names [OF names])
  finally show ?thesis using b by simp
qed

theorem relativePath_resolves_witness:
  "nested_under (path example_location) (path \<lparr>path = [''data'']\<rparr>) \<and>
   relativePath \<lparr>path = [''data'']\<rparr> example_location = ''raw'' \<and>
   resolve [''data''] ''raw'' = [''data'', ''raw'']"
proof -
  have n: "nested_under (path example_location) (path \<lparr>path = [''data'']\<rparr>)"
    by (simp add: nested_under_def example_location_def node_name_def)
  have r: "relativePath \<lparr>path = [''data'']\<rparr> example_location = ''raw''"
    by (simp add: relativePath_def example_location_def)
  from relativePath_resolves [OF n] n r show ?thesis
    by (simp add: example_location_def)
qed

section \<open>The dispatch of openDataset and createDataset\<close>

text \<open>
  \<^verbatim>\<open>openDataset\<close>, on a location that exists and whose descriptor was read, goes on as
  its switch does on that descriptor; \<^verbatim>\<open>createDataset\<close>, once \<^verbatim>\<open>create()\<close> and
  \<^verbatim>\<open>writeMetadata\<close> have returned, goes on as its switch does.
\<close>

lemma openDataset_reads:
  assumes "c_exists C dataset (store w)"
    and "c_readMetadata C dataset (store w) = (Inr metadata, s1)"
  shows "openDataset C dataset w =
           openDataset_switch dataset metadata
             \<lparr>trace = trace w @ [exists_called dataset, readMetadata_called dataset], store = s1\<rparr>"
  using assms by (simp add: openDataset_run)

lemma createDataset_writes:
  assumes "c_create C dataset (store w) = (Inr (), s2)"
    and "c_writeMetadata C dataset metadata s2 = (Inr (), s3)"
  shows "createDataset C dataset metadata w =
           createDataset_switch dataset metadata
             \<lparr>trace = trace w @ [create_called dataset, writeMetadata_called dataset metadata],
              store = s3\<rparr>"
  using assms by (simp add: createDataset_run)

lemma openDataset_listed:
  assumes ex: "c_exists C dataset (store w)"
    and rd: "c_readMetadata C dataset (store w) = (Inr metadata, s1)"
    and tag: "dtype metadata = enumerator t"
  obtains T where "cpp_representation T = tag_representation t"
    and "openDataset C dataset w =
          (Inr (Some (Dataset T dataset metadata)),
           \<lparr>trace = trace w @ [exists_called dataset, readMetadata_called dataset,
                                new_Dataset_called T dataset metadata],
            store = s1\<rparr>)"
proof -
  let ?v = "\<lparr>trace = trace w @ [exists_called dataset, readMetadata_called dataset], store = s1\<rparr>"
  obtain T where T: "cpp_representation T = tag_representation t"
    "openDataset_switch dataset metadata ?v = new_Dataset T dataset metadata ?v"
    by (rule openDataset_switch_listed [OF tag]) blast
  from T(2) have "openDataset C dataset w =
          (Inr (Some (Dataset T dataset metadata)),
           \<lparr>trace = trace w @ [exists_called dataset, readMetadata_called dataset,
                                new_Dataset_called T dataset metadata],
            store = s1\<rparr>)"
    by (simp add: openDataset_reads [OF ex rd] new_Dataset_result)
  with T(1) that show ?thesis by blast
qed

lemma createDataset_listed:
  assumes cr: "c_create C dataset (store w) = (Inr (), s2)"
    and wr: "c_writeMetadata C dataset metadata s2 = (Inr (), s3)"
    and tag: "dtype metadata = enumerator t"
  obtains T where "cpp_representation T = tag_representation t"
    and "createDataset C dataset metadata w =
          (Inr (Some (Dataset T dataset metadata)),
           \<lparr>trace = trace w @ [create_called dataset, writeMetadata_called dataset metadata,
                                new_Dataset_called T dataset metadata],
            store = s3\<rparr>)"
proof -
  let ?v = "\<lparr>trace = trace w @ [create_called dataset, writeMetadata_called dataset metadata],
             store = s3\<rparr>"
  obtain T where T: "cpp_representation T = tag_representation t"
    "openDataset_switch dataset metadata ?v = new_Dataset T dataset metadata ?v"
    by (rule openDataset_switch_listed [OF tag]) blast
  from T(2) have "createDataset C dataset metadata w =
          (Inr (Some (Dataset T dataset metadata)),
           \<lparr>trace = trace w @ [create_called dataset, writeMetadata_called dataset metadata,
                                new_Dataset_called T dataset metadata],
            store = s3\<rparr>)"
    by (simp add: createDataset_writes [OF cr wr] switches_agree new_Dataset_result)
  with T(1) that show ?thesis by blast
qed

lemma cpp_representation_unicode:
  "(cpp_representation T' = FixedUnicode N) = (T' = UTF32Array N)"
  by (cases T') auto

lemma openDataset_example:
  "openDataset spec_collaborators example_location created_world =
     (Inr (Some (Dataset float example_location example_descriptor)),
      \<lparr>trace = trace created_world @
         [exists_called example_location, readMetadata_called example_location,
          new_Dataset_called float example_location example_descriptor],
       store = store created_world\<rparr>)"
  by (simp add: openDataset_run spec_collaborators_def spec_exists_def spec_readMetadata_def
      decode_dtype_def all_tags_def openDataset_switch_def new_Dataset_result
      example_location_def example_descriptor_def created_world_def)

lemma spec_example_open_facts:
  "c_exists spec_collaborators example_location (store created_world)"
  "c_readMetadata spec_collaborators example_location (store created_world) =
     (Inr example_descriptor, store created_world)"
  "dtype example_descriptor = enumerator float32"
  by (simp_all add: spec_collaborators_def spec_exists_def spec_readMetadata_def
      decode_dtype_def all_tags_def example_location_def example_descriptor_def created_world_def)

lemma spec_example_create_facts:
  "c_create spec_collaborators example_location (store initial_world) =
     (Inr (), \<lparr>nodes = [[''data'', ''raw''] \<mapsto> empty_node], rejected = {}\<rparr>)"
  "c_writeMetadata spec_collaborators example_location example_descriptor
     \<lparr>nodes = [[''data'', ''raw''] \<mapsto> empty_node], rejected = {}\<rparr> =
     (Inr (), store created_world)"
  by (simp_all add: spec_collaborators_def spec_create_def spec_writeMetadata_def
      example_location_def example_descriptor_def created_world_def initial_world_def
      empty_medium_def)

text \<open>
  C1. For each of the 22 tags \<open>t\<close> and whatever the collaborators are:
  \<^verbatim>\<open>openDataset\<close>, on a location that exists and whose descriptor is read with the tag
  \<open>t\<close>, constructs one dataset object \<^verbatim>\<open>Dataset<T>\<close> on the handle and the descriptor
  read, and returns it; \<^verbatim>\<open>createDataset\<close>, given a descriptor with the tag \<open>t\<close>, does
  so once \<^verbatim>\<open>create()\<close> and \<^verbatim>\<open>writeMetadata\<close> have returned; in both the element type
  \<open>T\<close> has the representation that the tag stands for. The two switches alone do
  the same on every world. Two tags give the same element type only when they are the
  same tag. The unicode tags of widths 1 to 10 give \<^verbatim>\<open>UTF32Array<1>\<close> to
  \<^verbatim>\<open>UTF32Array<10>\<close>, in this order. Different tags stand for different
  representations, different element types have different representations, and the
  representation of \<open>N\<close> UTF-32 code units is that of \<^verbatim>\<open>UTF32Array<N>\<close> and of no
  other element type.
\<close>

theorem dispatch_matches_tag:
  "(c_exists C dataset (store w) \<and> c_readMetadata C dataset (store w) = (Inr md, s1) \<and>
    dtype md = enumerator t \<longrightarrow>
      (\<exists>T. cpp_representation T = tag_representation t \<and>
           openDataset C dataset w =
             (Inr (Some (Dataset T dataset md)),
              \<lparr>trace = trace w @ [exists_called dataset, readMetadata_called dataset,
                                   new_Dataset_called T dataset md],
               store = s1\<rparr>))) \<and>
   (c_create C dataset (store w) = (Inr (), s2) \<and> c_writeMetadata C dataset md s2 = (Inr (), s3) \<and>
    dtype md = enumerator t \<longrightarrow>
      (\<exists>T. cpp_representation T = tag_representation t \<and>
           createDataset C dataset md w =
             (Inr (Some (Dataset T dataset md)),
              \<lparr>trace = trace w @ [create_called dataset, writeMetadata_called dataset md,
                                   new_Dataset_called T dataset md],
               store = s3\<rparr>))) \<and>
   (\<exists>T. openDataset_switch dataset (with_dtype metadata t) w =
          (Inr (Some (Dataset T dataset (with_dtype metadata t))),
           \<lparr>trace = trace w @ [new_Dataset_called T dataset (with_dtype metadata t)], store = store w\<rparr>) \<and>
        createDataset_switch dataset (with_dtype metadata t) w =
          (Inr (Some (Dataset T dataset (with_dtype metadata t))),
           \<lparr>trace = trace w @ [new_Dataset_called T dataset (with_dtype metadata t)], store = store w\<rparr>) \<and>
        cpp_representation T = tag_representation t) \<and>
   (constructed_type (openDataset_switch dataset (with_dtype metadata t) w) =
    constructed_type (openDataset_switch dataset (with_dtype metadata t') w)) = (t = t') \<and>
   map (\<lambda>t. constructed_type (openDataset_switch dataset (with_dtype metadata t) w))
      [unicode1, unicode2, unicode3, unicode4, unicode5,
       unicode6, unicode7, unicode8, unicode9, unicode10] =
    map (\<lambda>N. Some (UTF32Array N)) [1, 2, 3, 4, 5, 6, 7, 8, 9, 10] \<and>
   inj tag_representation \<and> inj cpp_representation \<and>
   (cpp_representation T' = FixedUnicode N) = (T' = UTF32Array N)"
proof (intro conjI)
  show "c_exists C dataset (store w) \<and> c_readMetadata C dataset (store w) = (Inr md, s1) \<and>
    dtype md = enumerator t \<longrightarrow>
      (\<exists>T. cpp_representation T = tag_representation t \<and>
           openDataset C dataset w =
             (Inr (Some (Dataset T dataset md)),
              \<lparr>trace = trace w @ [exists_called dataset, readMetadata_called dataset,
                                   new_Dataset_called T dataset md],
               store = s1\<rparr>))"
  proof
    assume h: "c_exists C dataset (store w) \<and> c_readMetadata C dataset (store w) = (Inr md, s1) \<and>
      dtype md = enumerator t"
    then obtain T where "cpp_representation T = tag_representation t"
      "openDataset C dataset w =
          (Inr (Some (Dataset T dataset md)),
           \<lparr>trace = trace w @ [exists_called dataset, readMetadata_called dataset,
                                new_Dataset_called T dataset md],
            store = s1\<rparr>)"
      by (elim conjE) (rule openDataset_listed)
    then show "\<exists>T. cpp_representation T = tag_representation t \<and>
           openDataset C dataset w =
             (Inr (Some (Dataset T dataset md)),
              \<lparr>trace = trace w @ [exists_called dataset, readMetadata_called dataset,
                                   new_Dataset_called T dataset md],
               store = s1\<rparr>)"
      by blast
  qed
  show "c_create C dataset (store w) = (Inr (), s2) \<and> c_writeMetadata C dataset md s2 = (Inr (), s3) \<and>
    dtype md = enumerator t \<longrightarrow>
      (\<exists>T. cpp_representation T = tag_representation t \<and>
           createDataset C dataset md w =
             (Inr (Some (Dataset T dataset md)),
              \<lparr>trace = trace w @ [create_called dataset, writeMetadata_called dataset md,
                                   new_Dataset_called T dataset md],
               store = s3\<rparr>))"
  proof
    assume h: "c_create C dataset (store w) = (Inr (), s2) \<and>
      c_writeMetadata C dataset md s2 = (Inr (), s3) \<and> dtype md = enumerator t"
    then obtain T where "cpp_representation T = tag_representation t"
      "createDataset C dataset md w =
          (Inr (Some (Dataset T dataset md)),
           \<lparr>trace = trace w @ [create_called dataset, writeMetadata_called dataset md,
                                new_Dataset_called T dataset md],
            store = s3\<rparr>)"
      by (elim conjE) (rule createDataset_listed)
    then show "\<exists>T. cpp_representation T = tag_representation t \<and>
           createDataset C dataset md w =
             (Inr (Some (Dataset T dataset md)),
              \<lparr>trace = trace w @ [create_called dataset, writeMetadata_called dataset md,
                                   new_Dataset_called T dataset md],
               store = s3\<rparr>)"
      by blast
  qed
  let ?md = "with_dtype metadata t"
  obtain T where T: "openDataset_switch dataset ?md w = new_Dataset T dataset ?md w"
    "cpp_representation T = tag_representation t"
    by (rule constructed_type_listed)
  let ?r = "(Inr (Some (Dataset T dataset ?md)),
             \<lparr>trace = trace w @ [new_Dataset_called T dataset ?md], store = store w\<rparr>)"
  from T(1) have o: "openDataset_switch dataset ?md w = ?r"
    by (simp add: new_Dataset_result)
  then have c: "createDataset_switch dataset ?md w = ?r"
    by (simp add: switches_agree)
  from o c T(2) show "\<exists>T. openDataset_switch dataset ?md w =
      (Inr (Some (Dataset T dataset ?md)),
       \<lparr>trace = trace w @ [new_Dataset_called T dataset ?md], store = store w\<rparr>) \<and>
      createDataset_switch dataset ?md w =
      (Inr (Some (Dataset T dataset ?md)),
       \<lparr>trace = trace w @ [new_Dataset_called T dataset ?md], store = store w\<rparr>) \<and>
      cpp_representation T = tag_representation t"
    by blast
qed (rule constructed_type_eq_iff unicode_types inj_tag_representation inj_cpp_representation
       cpp_representation_unicode)+

theorem dispatch_matches_tag_witness:
  "c_exists spec_collaborators example_location (store created_world) \<and>
   c_readMetadata spec_collaborators example_location (store created_world) =
     (Inr example_descriptor, store created_world) \<and>
   dtype example_descriptor = enumerator float32 \<and>
   (\<exists>T. cpp_representation T = FloatingPoint 32 \<and>
      openDataset spec_collaborators example_location created_world =
        (Inr (Some (Dataset T example_location example_descriptor)),
         \<lparr>trace = trace created_world @
            [exists_called example_location, readMetadata_called example_location,
             new_Dataset_called T example_location example_descriptor],
          store = store created_world\<rparr>)) \<and>
   openDataset spec_collaborators example_location created_world =
     (Inr (Some (Dataset float example_location example_descriptor)),
      \<lparr>trace = trace created_world @
         [exists_called example_location, readMetadata_called example_location,
          new_Dataset_called float example_location example_descriptor],
       store = store created_world\<rparr>)"
  using dispatch_matches_tag
    [where C = spec_collaborators and dataset = example_location and w = created_world
       and md = example_descriptor and ?s1.0 = "store created_world" and t = float32]
    spec_example_open_facts openDataset_example
  by simp

text \<open>
  C10. Whatever the collaborators of the one and of the other are: when
  \<^verbatim>\<open>openDataset\<close> has read a descriptor at a location, and \<^verbatim>\<open>createDataset\<close> is given
  the same location and the same descriptor and its \<^verbatim>\<open>create()\<close> and \<^verbatim>\<open>writeMetadata\<close>
  return, the two functions return the same pointer and make the same constructor
  calls after their own calls to the collaborators: for a tag among the 22 the one
  dataset object \<^verbatim>\<open>Dataset<T>\<close> with the representation of the tag, for any other
  value the null pointer and no constructor call. The two switches do the same on
  every handle, descriptor and world.
\<close>

theorem openDataset_createDataset_same_dispatch:
  assumes ex: "c_exists C dataset (store w)"
    and rd: "c_readMetadata C dataset (store w) = (Inr metadata, s1)"
    and cr: "c_create C' dataset (store w') = (Inr (), s2)"
    and wr: "c_writeMetadata C' dataset metadata s2 = (Inr (), s3)"
  shows "fst (openDataset C dataset w) = fst (createDataset C' dataset metadata w') \<and>
         (\<exists>evs. trace (snd (openDataset C dataset w)) =
                  trace w @ [exists_called dataset, readMetadata_called dataset] @ evs \<and>
                trace (snd (createDataset C' dataset metadata w')) =
                  trace w' @ [create_called dataset, writeMetadata_called dataset metadata] @ evs \<and>
                (case dtype metadata of
                   enumerator t \<Rightarrow>
                     (\<exists>T. cpp_representation T = tag_representation t \<and>
                          evs = [new_Dataset_called T dataset metadata] \<and>
                          fst (openDataset C dataset w) = Inr (Some (Dataset T dataset metadata)))
                 | unlisted n \<Rightarrow> evs = [] \<and> fst (openDataset C dataset w) = Inr None)) \<and>
         openDataset_switch dataset metadata v = createDataset_switch dataset metadata v"
proof (cases "dtype metadata")
  case (unlisted n)
  then have "openDataset C dataset w =
      (Inr None, \<lparr>trace = trace w @ [exists_called dataset, readMetadata_called dataset], store = s1\<rparr>)"
    by (simp add: openDataset_reads [OF ex rd] openDataset_switch_unlisted)
  moreover from unlisted have "createDataset C' dataset metadata w' =
      (Inr None, \<lparr>trace = trace w' @ [create_called dataset, writeMetadata_called dataset metadata],
                  store = s3\<rparr>)"
    by (simp add: createDataset_writes [OF cr wr] switches_agree openDataset_switch_unlisted)
  ultimately show ?thesis using unlisted by (simp add: switches_agree)
next
  case (enumerator t)
  obtain T where T: "cpp_representation T = tag_representation t"
    "openDataset C dataset w =
          (Inr (Some (Dataset T dataset metadata)),
           \<lparr>trace = trace w @ [exists_called dataset, readMetadata_called dataset,
                                new_Dataset_called T dataset metadata],
            store = s1\<rparr>)"
    by (rule openDataset_listed [OF ex rd enumerator])
  obtain T' where T': "cpp_representation T' = tag_representation t"
    "createDataset C' dataset metadata w' =
          (Inr (Some (Dataset T' dataset metadata)),
           \<lparr>trace = trace w' @ [create_called dataset, writeMetadata_called dataset metadata,
                                new_Dataset_called T' dataset metadata],
            store = s3\<rparr>)"
    by (rule createDataset_listed [OF cr wr enumerator])
  from T(1) T'(1) have "cpp_representation T' = cpp_representation T" by simp
  then have "T' = T" by (rule injD [OF inj_cpp_representation])
  with T T'(2) enumerator show ?thesis by (simp add: switches_agree)
qed

theorem openDataset_createDataset_same_dispatch_witness:
  "fst (openDataset spec_collaborators example_location created_world) =
     fst (createDataset spec_collaborators example_location example_descriptor initial_world) \<and>
   fst (createDataset spec_collaborators example_location example_descriptor initial_world) =
     Inr (Some (Dataset float example_location example_descriptor)) \<and>
   trace (snd (openDataset spec_collaborators example_location created_world)) =
     trace created_world @ [exists_called example_location, readMetadata_called example_location] @
       [new_Dataset_called float example_location example_descriptor] \<and>
   trace (snd (createDataset spec_collaborators example_location example_descriptor initial_world)) =
     trace initial_world @
       [create_called example_location, writeMetadata_called example_location example_descriptor] @
       [new_Dataset_called float example_location example_descriptor]"
  using openDataset_createDataset_same_dispatch
    [OF spec_example_open_facts(1) spec_example_open_facts(2) spec_example_create_facts]
    createDataset_example openDataset_example
  by (simp add: created_world_def initial_world_def)

end
